theory Spec2Isabelle
  imports Main "HOL-Library.Word"
begin

unbundle bit_operations_syntax

chapter \<open>nex-go: the PRUDP server, its byte streams and the NEX DateTime\<close>

text \<open>
  A shallow embedding of the parts of nex-go that the specification's statements are about:
  \<^item> \<open>DateTime\<close> (the packed 64-bit timestamp);
  \<^item> \<open>ByteStreamIn\<close> over a crunch buffer, and \<open>Buffer.ExtractFrom\<close>;
  \<^item> \<open>PRUDPServer\<close>: construction, endpoint binding, datagram dispatch,
    packet validation, fragmentation in \<open>Send\<close> and the payload pipeline of
    \<open>sendPacket\<close>.
  Go's \<open>uint8\<close>, \<open>uint32\<close>, \<open>uint64\<close> and \<open>int\<close> (64 bits on every platform the
  server targets) are words of that width; a run-time panic of Go is a value of
  \<open>go_panic\<close>.
\<close>

type_synonym byte = "8 word"
type_synonym bytes = "byte list"
type_synonym go_int = "64 word"

datatype go_panic =
    IndexOutOfRange
  | SliceBoundsOutOfRange
  | IntegerDivideByZero
  | BufferOverread

section \<open>DateTime\<close>

text \<open>
  \<^verbatim>\<open>type DateTime struct { value uint64 }\<close>. The arguments of \<open>Make\<close> are Go
  \<open>int\<close>s; \<open>|\<close> and \<open><<\<close> act on their 64 bits and the conversion \<open>uint64(...)\<close>
  keeps the bit pattern. The accessors shift the unsigned value (a logical shift) and
  convert back to \<open>int\<close>, again keeping the bits.
\<close>

record DateTime =
  dt_value :: "64 word"

definition Make :: "DateTime \<Rightarrow> go_int \<Rightarrow> go_int \<Rightarrow> go_int \<Rightarrow> go_int \<Rightarrow> go_int \<Rightarrow> go_int \<Rightarrow> DateTime" where
  "Make dt year month day hour minute second =
     dt\<lparr>dt_value := second OR (push_bit 6 minute) OR (push_bit 12 hour) OR (push_bit 17 day)
                       OR (push_bit 22 month) OR (push_bit 26 year)\<rparr>"

definition Value :: "DateTime \<Rightarrow> 64 word" where
  "Value dt = dt_value dt"

definition Second :: "DateTime \<Rightarrow> go_int" where
  "Second dt = dt_value dt AND 63"

definition Minute :: "DateTime \<Rightarrow> go_int" where
  "Minute dt = (drop_bit 6 (dt_value dt)) AND 63"

definition Hour :: "DateTime \<Rightarrow> go_int" where
  "Hour dt = (drop_bit 12 (dt_value dt)) AND 31"

definition Day :: "DateTime \<Rightarrow> go_int" where
  "Day dt = (drop_bit 17 (dt_value dt)) AND 31"

definition Month :: "DateTime \<Rightarrow> go_int" where
  "Month dt = (drop_bit 22 (dt_value dt)) AND 15"

definition Year :: "DateTime \<Rightarrow> go_int" where
  "Year dt = drop_bit 26 (dt_value dt)"

definition NewDateTime :: "64 word \<Rightarrow> DateTime" where
  "NewDateTime v = \<lparr>dt_value = v\<rparr>"

section \<open>ByteStreamIn over a crunch buffer\<close>

text \<open>
  \<open>ByteStreamIn\<close> embeds a \<open>*crunch.Buffer\<close> (the external library
  github.com/superwhiskers/crunch/v3): the bytes \<open>buf\<close> and the byte offset \<open>boff\<close> of
  the next read. The \<open>Server\<close> field only selects size settings of string and PID
  fields and is left out.
\<close>

record ByteStreamIn =
  buf :: bytes
  boff :: nat

definition NewByteStreamIn :: "bytes \<Rightarrow> ByteStreamIn" where
  "NewByteStreamIn data = \<lparr>buf = data, boff = 0\<rparr>"

text \<open>
  crunch's \<open>ReadBytes(off, n)\<close> panics with its overread error when \<open>off + n\<close> passes the end
  of the buffer and otherwise returns \<open>buf[off : off+n]\<close> (which Go refuses for a negative
  \<open>n\<close>); \<open>ReadBytesNext(n)\<close> reads at the current offset and moves the offset by \<open>n\<close>.
\<close>

definition ReadBytes :: "ByteStreamIn \<Rightarrow> nat \<Rightarrow> int \<Rightarrow> go_panic + bytes" where
  "ReadBytes b off n =
     (if int (length (buf b)) < int off + n then Inl BufferOverread
      else if n < 0 then Inl SliceBoundsOutOfRange
      else Inr (take (nat n) (drop off (buf b))))"

definition ReadBytesNext :: "ByteStreamIn \<Rightarrow> int \<Rightarrow> go_panic + (ByteStreamIn \<times> bytes)" where
  "ReadBytesNext b n =
     (case ReadBytes b (boff b) n of
        Inl p \<Rightarrow> Inl p
      | Inr out \<Rightarrow> Inr (b\<lparr>boff := boff b + nat n\<rparr>, out))"

text \<open>Little-endian decoding of a 32-bit value from its bytes, lowest byte first.\<close>

definition le_uint32 :: "bytes \<Rightarrow> 32 word" where
  "le_uint32 bs = foldr (\<lambda>b acc. ucast b OR push_bit 8 acc) bs 0"

text \<open>\<open>ReadU32LENext(1)[0]\<close>: one little-endian \<open>uint32\<close> at the offset, which moves by 4.\<close>

definition ReadU32LENext :: "ByteStreamIn \<Rightarrow> go_panic + (ByteStreamIn \<times> 32 word)" where
  "ReadU32LENext b =
     (case ReadBytesNext b 4 of
        Inl p \<Rightarrow> Inl p
      | Inr (b', out) \<Rightarrow> Inr (b', le_uint32 out))"

text \<open>
  \<^verbatim>\<open>return uint64(len(bsi.Bytes()[bsi.ByteOffset():]))\<close>. Go panics on the slice
  expression when the offset is past the length. A Go slice holds fewer than \<open>2^63\<close>
  bytes, so the conversion to \<open>uint64\<close> is exact and the count is kept as a \<open>nat\<close>.
\<close>

definition Remaining :: "ByteStreamIn \<Rightarrow> go_panic + nat" where
  "Remaining bsi =
     (if length (buf bsi) < boff bsi then Inl SliceBoundsOutOfRange
      else Inr (length (drop (boff bsi) (buf bsi))))"

text \<open>
  \<^verbatim>\<open>func (bsi *ByteStreamIn) Read(length uint64) ([]byte, error)\<close>: the result is the
  stream after the call, the bytes returned and the error (\<open>None\<close> for \<open>nil\<close>).
  \<open>int64(length)\<close> reads the 64 bits as a signed number.
\<close>

definition Read :: "ByteStreamIn \<Rightarrow> 64 word \<Rightarrow> go_panic + (ByteStreamIn \<times> bytes \<times> string option)" where
  "Read bsi n =
     (case Remaining bsi of
        Inl p \<Rightarrow> Inl p
      | Inr r \<Rightarrow>
          if r < unat n then Inr (bsi, [], Some ''Read is OOB'')
          else (case ReadBytesNext bsi (sint n) of
                  Inl p \<Rightarrow> Inl p
                | Inr (bsi', out) \<Rightarrow> Inr (bsi', out, None)))"

definition ReadPrimitiveUInt32LE :: "ByteStreamIn \<Rightarrow> go_panic + (ByteStreamIn \<times> 32 word \<times> string option)" where
  "ReadPrimitiveUInt32LE bsi =
     (case Remaining bsi of
        Inl p \<Rightarrow> Inl p
      | Inr r \<Rightarrow>
          if r < 4 then Inr (bsi, 0, Some ''Not enough data to read uint32'')
          else (case ReadU32LENext bsi of
                  Inl p \<Rightarrow> Inl p
                | Inr (bsi', v) \<Rightarrow> Inr (bsi', v, None)))"

text \<open>
  \<^verbatim>\<open>func (b *Buffer) ExtractFrom(readable Readable) error\<close> with a \<open>ByteStreamIn\<close> as
  the readable: the result is the buffer value after the call (assigned only on success),
  the stream after the call and the error.
\<close>

definition ExtractFrom :: "bytes \<Rightarrow> ByteStreamIn \<Rightarrow> go_panic + (bytes \<times> ByteStreamIn \<times> string option)" where
  "ExtractFrom b readable =
     (case ReadPrimitiveUInt32LE readable of
        Inl p \<Rightarrow> Inl p
      | Inr (r1, len, Some err) \<Rightarrow> Inr (b, r1, Some (''Failed to read NEX Buffer length. '' @ err))
      | Inr (r1, len, None) \<Rightarrow>
          (case Read r1 (ucast len) of
             Inl p \<Rightarrow> Inl p
           | Inr (r2, v, Some err) \<Rightarrow> Inr (b, r2, Some (''Failed to read NEX Buffer data. '' @ err))
           | Inr (r2, v, None) \<Rightarrow> Inr (v, r2, None)))"

section \<open>The PRUDP server\<close>

subsection \<open>Packets as the server sees them\<close>

text \<open>
  The packet types behind \<open>PRUDPPacketInterface\<close> are not part of the sources under
  study; the server reads and writes them only through the methods below, so a packet is
  the record of what those methods return. \<open>dialect\<close> is the concrete Go type
  (\<open>*PRUDPPacketV0\<close>, \<open>*PRUDPPacketV1\<close>, \<open>*PRUDPPacketLite\<close>) that the type
  assertion in \<open>processPacket\<close> inspects.
\<close>

datatype prudp_dialect = V0 | V1 | Lite

datatype packet_type = SynPacket | ConnectPacket | DataPacket | DisconnectPacket | PingPacket

datatype packet_flag =
    PacketFlagAck
  | PacketFlagReliable
  | PacketFlagNeedsAck
  | PacketFlagHasSize
  | PacketFlagMultiAck

record PRUDPPacket =
  dialect :: prudp_dialect
  ptype :: packet_type
  flags :: "packet_flag set"
  SourceVirtualPortStreamType :: byte
  SourceVirtualPortStreamID :: byte
  DestinationVirtualPortStreamType :: byte
  DestinationVirtualPortStreamID :: byte
  sessionID :: byte
  substreamID :: byte
  sequenceID :: "16 word"
  fragmentID :: byte
  payload :: bytes
  signature :: bytes
  sendCount :: "32 word"
  sentAt :: nat

text \<open>\<open>PacketInterface\<close> has implementations other than PRUDP packets.\<close>

datatype PacketInterface = PRUDPPacketInterface PRUDPPacket | OtherPacket

definition HasFlag :: "PRUDPPacket \<Rightarrow> packet_flag \<Rightarrow> bool" where
  "HasFlag p f = (f \<in> flags p)"

text \<open>
  \<open>Version()\<close> is declared with the packet types; the dialects report 0, 1 and 2, and the
  comment at its call site in \<open>sendPacket\<close> ties version 2 to PRUDPLite.
\<close>

definition Version :: "PRUDPPacket \<Rightarrow> nat" where
  "Version p = (case dialect p of V0 \<Rightarrow> 0 | V1 \<Rightarrow> 1 | Lite \<Rightarrow> 2)"

subsection \<open>Server, endpoints, sockets\<close>

text \<open>
  Pointers to sockets and to the server are handles (natural numbers), \<open>None\<close> for
  \<open>nil\<close>. \<open>net.Addr\<close> is an interface; \<open>sendRaw\<close> distinguishes \<open>*net.UDPAddr\<close>
  from every other implementation.
\<close>

type_synonym handle = nat

datatype net_Addr = UDPAddr string | OtherAddr string

definition Addr_String :: "net_Addr \<Rightarrow> string" where
  "Addr_String a = (case a of UDPAddr s \<Rightarrow> s | OtherAddr s \<Rightarrow> s)"

record SocketConnection =
  Address :: net_Addr
  WebSocketConnection :: "handle option"

record PRUDPEndPoint =
  StreamID :: byte
  Server :: "handle option"

record PRUDPV1Settings =
  LegacyConnectionSignature :: bool

text \<open>
  \<^verbatim>\<open>type PRUDPServer struct\<close>. \<open>self\<close> is the address of the struct, what the
  receiver \<open>ps\<close> is in Go. \<open>Endpoints\<close> is a \<open>*MutexMap[uint8, *PRUDPEndPoint]\<close>. The
  fields \<open>LibraryVersions\<close>, \<open>ByteStreamSettings\<close> and \<open>PRUDPV0Settings\<close> are
  only handed on to code outside the sources and are left out; of \<open>PRUDPV1Settings\<close>
  the server reads \<open>LegacyConnectionSignature\<close>.
\<close>

record PRUDPServer =
  self :: handle
  udpSocket :: "handle option"
  websocketServer :: "handle option"
  Endpoints :: "byte \<rightharpoonup> PRUDPEndPoint"
  SupportedFunctions :: "32 word"
  AccessKey :: string
  KerberosTicketVersion :: go_int
  SessionKeyLength :: go_int
  FragmentSize :: go_int
  PRUDPv1ConnectionSignatureKey :: bytes
  PRUDPV1Settings :: PRUDPV1Settings
  UseVerboseRMC :: bool

text \<open>
  Modelled from the spec: \<open>MutexMap\<close> (mutex_map.go is not among the sources) is the
  shared, concurrently read-and-written map from stream ids to endpoints; \<open>Has\<close>,
  \<open>Get\<close> and \<open>Set\<close> are membership, lookup and insertion of a map.
\<close>

definition MutexMap_Has :: "('k \<rightharpoonup> 'v) \<Rightarrow> 'k \<Rightarrow> bool" where
  "MutexMap_Has m k = (m k \<noteq> None)"

definition MutexMap_Get :: "('k \<rightharpoonup> 'v) \<Rightarrow> 'k \<Rightarrow> 'v option" where
  "MutexMap_Get m k = m k"

definition MutexMap_Set :: "('k \<rightharpoonup> 'v) \<Rightarrow> 'k \<Rightarrow> 'v \<Rightarrow> ('k \<rightharpoonup> 'v)" where
  "MutexMap_Set m k v = m(k \<mapsto> v)"

text \<open>
  \<^verbatim>\<open>func NewPRUDPServer() *PRUDPServer\<close>. The fields the literal does not name have
  Go's zero values. The address of the new struct and the result of
  \<open>NewPRUDPV1Settings()\<close> (a constructor outside the sources) are arguments.
\<close>

definition NewPRUDPServer :: "handle \<Rightarrow> PRUDPV1Settings \<Rightarrow> PRUDPServer" where
  "NewPRUDPServer addr v1 =
     \<lparr>self = addr,
      udpSocket = None,
      websocketServer = None,
      Endpoints = Map.empty,
      SupportedFunctions = 0,
      AccessKey = [],
      KerberosTicketVersion = 0,
      SessionKeyLength = 32,
      FragmentSize = 1300,
      PRUDPv1ConnectionSignatureKey = [],
      PRUDPV1Settings = v1,
      UseVerboseRMC = False\<rparr>"

definition SetFragmentSize :: "PRUDPServer \<Rightarrow> go_int \<Rightarrow> PRUDPServer" where
  "SetFragmentSize ps fragmentSize = ps\<lparr>FragmentSize := fragmentSize\<rparr>"

text \<open>
  \<^verbatim>\<open>func (ps *PRUDPServer) BindPRUDPEndPoint(endpoint *PRUDPEndPoint)\<close>: the result is
  the server after the call, the endpoint after the call and the stream ids that
  \<open>logger.Warningf\<close> reported as already bound.
\<close>

definition BindPRUDPEndPoint :: "PRUDPServer \<Rightarrow> PRUDPEndPoint \<Rightarrow> PRUDPServer \<times> PRUDPEndPoint \<times> byte list" where
  "BindPRUDPEndPoint ps endpoint =
     (if MutexMap_Has (Endpoints ps) (StreamID endpoint) then (ps, endpoint, [StreamID endpoint])
      else
        (let endpoint' = endpoint\<lparr>Server := Some (self ps)\<rparr>
         in (ps\<lparr>Endpoints := MutexMap_Set (Endpoints ps) (StreamID endpoint') endpoint'\<rparr>, endpoint', [])))"

subsection \<open>Code outside the sources\<close>

text \<open>
  What the server calls but the sources do not contain is a parameter: one record of
  functions over \<open>'w\<close>, the state those functions own (connections with their sliding
  windows, counters, ciphers and timeout schedules).
  \<^item> \<open>StreamTypeRelay\<close>: the constant \<open>constants.StreamTypeRelay\<close>;
  \<^item> \<open>NewPRUDPPacketsLite\<close>, \<open>NewPRUDPPacketsV1\<close>, \<open>NewPRUDPPacketsV0\<close>: the three
    decoders, whose error result \<open>handleSocketMessage\<close> discards;
  \<^item> \<open>NewSocketConnection\<close> and \<open>endpoint_processPacket\<close>
    (\<open>PRUDPEndPoint.processPacket\<close>), which is where connections are created and
    payloads delivered;
  \<^item> the sequence counters, the compression and encryption algorithms of a substream's
    stream settings (each returns its output and its error), the unreliable crypto
    transform, the signature, the timeout schedule and the wire encoding \<open>Bytes()\<close>.
\<close>

record 'w collaborators =
  StreamTypeRelay :: byte
  NewPRUDPPacketsLite :: "PRUDPServer \<Rightarrow> ByteStreamIn \<Rightarrow> PRUDPPacket list"
  NewPRUDPPacketsV1 :: "PRUDPServer \<Rightarrow> ByteStreamIn \<Rightarrow> PRUDPPacket list"
  NewPRUDPPacketsV0 :: "PRUDPServer \<Rightarrow> ByteStreamIn \<Rightarrow> PRUDPPacket list"
  NewSocketConnection :: "PRUDPServer \<Rightarrow> net_Addr \<Rightarrow> handle option \<Rightarrow> SocketConnection"
  endpoint_processPacket :: "PRUDPEndPoint \<Rightarrow> PRUDPPacket \<Rightarrow> SocketConnection \<Rightarrow> 'w \<Rightarrow> 'w"
  NextOutgoingSequenceID :: "byte \<Rightarrow> 'w \<Rightarrow> 16 word \<times> 'w"
  outgoingUnreliableSequenceIDCounter_Next :: "'w \<Rightarrow> 16 word \<times> 'w"
  outgoingPingSequenceIDCounter_Next :: "'w \<Rightarrow> 16 word \<times> 'w"
  Compress :: "byte \<Rightarrow> 'w \<Rightarrow> bytes \<Rightarrow> (bytes \<times> string option) \<times> 'w"
  Encrypt :: "byte \<Rightarrow> 'w \<Rightarrow> bytes \<Rightarrow> (bytes \<times> string option) \<times> 'w"
  processUnreliableCrypto :: "'w \<Rightarrow> PRUDPPacket \<Rightarrow> bytes"
  calculateSignature :: "PRUDPPacket \<Rightarrow> bytes \<Rightarrow> bytes \<Rightarrow> bytes"
  SchedulePacketTimeout :: "byte \<Rightarrow> PRUDPPacket \<Rightarrow> 'w \<Rightarrow> 'w"
  Bytes :: "PRUDPPacket \<Rightarrow> bytes"

subsection \<open>Receiving: datagram dispatch and packet validation\<close>

text \<open>
  A Go slice is a window of length \<open>slen\<close> on \<open>backing\<close>, the part of its array from
  the slice's first element to its capacity. Indexing checks the length, the slice
  expression \<open>s[:j]\<close> checks the capacity.
\<close>

record go_slice =
  backing :: bytes
  slen :: nat

definition slice_bytes :: "go_slice \<Rightarrow> bytes" where
  "slice_bytes s = take (slen s) (backing s)"

definition slice_index :: "go_slice \<Rightarrow> nat \<Rightarrow> go_panic + byte" where
  "slice_index s i =
     (if i < length (slice_bytes s) then Inr (slice_bytes s ! i) else Inl IndexOutOfRange)"

definition slice_upto :: "go_slice \<Rightarrow> nat \<Rightarrow> go_panic + bytes" where
  "slice_upto s j =
     (if j \<le> length (backing s) then Inr (take j (backing s)) else Inl SliceBoundsOutOfRange)"

text \<open>
  \<^verbatim>\<open>packetData := make([]byte, read); copy(packetData, buffer[:read])\<close> in
  \<open>listenAndServeUDP\<close>: length and capacity are both the number of bytes read.
\<close>

definition make_copy :: "bytes \<Rightarrow> go_slice" where
  "make_copy data = \<lparr>backing = data, slen = length data\<rparr>"

datatype process_error =
    UnboundEndPoint string byte
  | NonMatchingStreamTypes string byte byte
  | InvalidDestinationStreamType string byte
  | InvalidSourceStreamType string byte
  | InvalidSourcePortNumber string byte

text \<open>
  \<^verbatim>\<open>func (ps *PRUDPServer) processPacket(packet, address, webSocketConnection) error\<close>.
  Each \<open>fmt.Errorf\<close> is a constructor of \<open>process_error\<close> holding the values it
  formats. The result is the state \<open>'w\<close> after the call and the error.
\<close>

definition processPacket :: "'w collaborators \<Rightarrow> PRUDPServer \<Rightarrow> PRUDPPacket \<Rightarrow> net_Addr \<Rightarrow> handle option \<Rightarrow> 'w \<Rightarrow> 'w \<times> process_error option" where
  "processPacket co ps packet address webSocketConnection w =
     (if \<not> MutexMap_Has (Endpoints ps) (DestinationVirtualPortStreamID packet) then
        (w, Some (UnboundEndPoint (Addr_String address) (DestinationVirtualPortStreamID packet)))
      else
        (case MutexMap_Get (Endpoints ps) (DestinationVirtualPortStreamID packet) of
           None \<Rightarrow>
             (w, Some (UnboundEndPoint (Addr_String address) (DestinationVirtualPortStreamID packet)))
         | Some endpoint \<Rightarrow>
             if DestinationVirtualPortStreamType packet \<noteq> SourceVirtualPortStreamType packet then
               (w, Some (NonMatchingStreamTypes (Addr_String address)
                           (DestinationVirtualPortStreamType packet) (SourceVirtualPortStreamType packet)))
             else if StreamTypeRelay co < DestinationVirtualPortStreamType packet then
               (w, Some (InvalidDestinationStreamType (Addr_String address)
                           (DestinationVirtualPortStreamType packet)))
             else if StreamTypeRelay co < SourceVirtualPortStreamType packet then
               (w, Some (InvalidSourceStreamType (Addr_String address)
                           (DestinationVirtualPortStreamType packet)))
             else
               (let sourcePortNumber = SourceVirtualPortStreamID packet;
                    invalidSourcePort =
                      (if dialect packet = Lite \<and> 31 < sourcePortNumber then True
                       else if 15 < sourcePortNumber then True
                       else False)
                in if invalidSourcePort then
                     (w, Some (InvalidSourcePortNumber (Addr_String address) sourcePortNumber))
                   else
                     (let socket = NewSocketConnection co ps address webSocketConnection
                      in (endpoint_processPacket co endpoint packet socket w, None)))))"

text \<open>
  The loop \<^verbatim>\<open>for _, packet := range packets\<close> of \<open>handleSocketMessage\<close>: it stops at
  the first packet that \<open>processPacket\<close> rejects and returns that error (after logging
  it as a warning).
\<close>

fun handleSocketMessage_loop :: "'w collaborators \<Rightarrow> PRUDPServer \<Rightarrow> PRUDPPacket list \<Rightarrow> net_Addr \<Rightarrow> handle option \<Rightarrow> 'w \<Rightarrow> 'w \<times> process_error option" where
  "handleSocketMessage_loop co ps [] address webSocketConnection w = (w, None)"
| "handleSocketMessage_loop co ps (packet # packets) address webSocketConnection w =
     (case processPacket co ps packet address webSocketConnection w of
        (w', Some err) \<Rightarrow> (w', Some err)
      | (w', None) \<Rightarrow> handleSocketMessage_loop co ps packets address webSocketConnection w')"

text \<open>
  \<^verbatim>\<open>func (ps *PRUDPServer) handleSocketMessage(packetData []byte, address, webSocketConnection) error\<close>.
  \<open>&&\<close> evaluates \<open>packetData[0]\<close> only when \<open>ps.websocketServer\<close> is not \<open>nil\<close>;
  \<open>packetData[:2]\<close> is evaluated whenever the first condition is false.
\<close>

definition handleSocketMessage :: "'w collaborators \<Rightarrow> PRUDPServer \<Rightarrow> go_slice \<Rightarrow> net_Addr \<Rightarrow> handle option \<Rightarrow> 'w \<Rightarrow> go_panic + ('w \<times> process_error option)" where
  "handleSocketMessage co ps packetData address webSocketConnection w =
     (let readStream = NewByteStreamIn (slice_bytes packetData)
      in case (if websocketServer ps \<noteq> None
               then (case slice_index packetData 0 of Inl p \<Rightarrow> Inl p | Inr b \<Rightarrow> Inr (b = 0x80))
               else Inr False) of
           Inl p \<Rightarrow> Inl p
         | Inr True \<Rightarrow>
             Inr (handleSocketMessage_loop co ps (NewPRUDPPacketsLite co ps readStream)
                    address webSocketConnection w)
         | Inr False \<Rightarrow>
             (case slice_upto packetData 2 of
                Inl p \<Rightarrow> Inl p
              | Inr prefix \<Rightarrow>
                  if prefix = [0xEA, 0xD0] then
                    Inr (handleSocketMessage_loop co ps (NewPRUDPPacketsV1 co ps readStream)
                           address webSocketConnection w)
                  else
                    Inr (handleSocketMessage_loop co ps (NewPRUDPPacketsV0 co ps readStream)
                           address webSocketConnection w)))"

text \<open>
  One round of the read loop of \<open>listenAndServeUDP\<close>: the datagram read from the socket
  is copied and handed to \<open>handleSocketMessage\<close> with no WebSocket connection. A panic
  there is a panic of a goroutine, which ends the process.
\<close>

definition listenAndServeUDP_datagram :: "'w collaborators \<Rightarrow> PRUDPServer \<Rightarrow> bytes \<Rightarrow> net_Addr \<Rightarrow> 'w \<Rightarrow> go_panic + ('w \<times> process_error option)" where
  "listenAndServeUDP_datagram co ps datagram addr w =
     handleSocketMessage co ps (make_copy datagram) addr None w"

subsection \<open>Sending: fragmentation\<close>

text \<open>Go's integer division truncates towards zero.\<close>

definition go_div :: "int \<Rightarrow> int \<Rightarrow> int" where
  "go_div a b = sgn a * sgn b * (\<bar>a\<bar> div \<bar>b\<bar>)"

text \<open>
  The loop \<^verbatim>\<open>for i := 0; i <= fragments; i++\<close> of \<open>Send\<close>, from the state
  (\<open>i\<close>, \<open>data\<close>, \<open>fragmentID\<close>, \<open>packet\<close>). The result lists the packets handed to
  \<open>sendPacket\<close>, in order, as they are at the call (the payload and fragment id just
  set); \<open>sendPacket\<close> works on a copy and leaves the loop's variables alone. The second
  component is the panic that ended the loop, if one did: \<open>data[:ps.FragmentSize]\<close> with
  a negative fragment size. \<open>fragmentID\<close> is a \<open>uint8\<close> and wraps.
\<close>

function Send_loop :: "int \<Rightarrow> int \<Rightarrow> int \<Rightarrow> bytes \<Rightarrow> byte \<Rightarrow> PRUDPPacket \<Rightarrow> PRUDPPacket list \<times> go_panic option" where
  "Send_loop i fragments fs data fragmentID' packet =
     (if i \<le> fragments then
        (if int (length data) < fs then
           (let packet' = packet\<lparr>payload := data, fragmentID := 0\<rparr>;
                (sent, p) = Send_loop (i + 1) fragments fs data fragmentID' packet'
            in (packet' # sent, p))
         else if fs < 0 then ([], Some SliceBoundsOutOfRange)
         else
           (let packet' = packet\<lparr>payload := take (nat fs) data, fragmentID := fragmentID'\<rparr>;
                (sent, p) = Send_loop (i + 1) fragments fs (drop (nat fs) data) (fragmentID' + 1) packet'
            in (packet' # sent, p)))
      else ([], None))"
  by pat_completeness auto
termination
  by (relation "measure (\<lambda>(i, fragments, fs, data, fragmentID', packet). nat (fragments + 1 - i))") auto

declare Send_loop.simps [simp del]

text \<open>
  \<^verbatim>\<open>func (ps *PRUDPServer) Send(packet PacketInterface)\<close>. A packet that is not a PRUDP
  packet is ignored. \<open>len(data) / ps.FragmentSize\<close> panics for a fragment size of 0. The
  pause between two fragments is not modelled.
\<close>

definition Send :: "PRUDPServer \<Rightarrow> PacketInterface \<Rightarrow> PRUDPPacket list \<times> go_panic option" where
  "Send ps packet =
     (case packet of
        OtherPacket \<Rightarrow> ([], None)
      | PRUDPPacketInterface packet \<Rightarrow>
          (let data = payload packet;
               fs = sint (FragmentSize ps)
           in if fs = 0 then ([], Some IntegerDivideByZero)
              else Send_loop 0 (go_div (int (length data)) fs) fs data 1 packet))"

subsection \<open>Sending: one packet\<close>

record 'w PRUDPConnection =
  ServerSessionID :: byte
  SessionKey :: bytes
  Signature :: bytes
  ServerConnectionSignature :: bytes
  lastSentPingTime :: nat
  Socket :: SocketConnection
  internals :: 'w

datatype transmission = WriteToUDP bytes string | WriteMessage handle bytes

text \<open>
  \<^verbatim>\<open>func (ps *PRUDPServer) sendRaw(socket *SocketConnection, data []byte)\<close>: which
  transport gets the bytes, if any. An error of the transport is only logged.
\<close>

definition sendRaw :: "PRUDPServer \<Rightarrow> SocketConnection \<Rightarrow> bytes \<Rightarrow> transmission option" where
  "sendRaw ps socket data =
     (case (Address socket, udpSocket ps) of
        (UDPAddr address, Some u) \<Rightarrow> Some (WriteToUDP data address)
      | _ \<Rightarrow> (case WebSocketConnection socket of
                Some c \<Rightarrow> Some (WriteMessage c data)
              | None \<Rightarrow> None))"

text \<open>
  \<open>sendPacket\<close>, block by block. First the sequence id: \<open>now\<close> is the reading of
  \<open>time.Now()\<close> stored as the last ping time.
\<close>

definition sendPacket_sequence :: "'w collaborators \<Rightarrow> nat \<Rightarrow> PRUDPPacket \<Rightarrow> 'w PRUDPConnection \<Rightarrow> PRUDPPacket \<times> 'w PRUDPConnection" where
  "sendPacket_sequence co now packetCopy connection =
     (if \<not> HasFlag packetCopy PacketFlagAck \<and> \<not> HasFlag packetCopy PacketFlagMultiAck then
        (if HasFlag packetCopy PacketFlagReliable then
           (let (s, w) = NextOutgoingSequenceID co (substreamID packetCopy) (internals connection)
            in (packetCopy\<lparr>sequenceID := s\<rparr>, connection\<lparr>internals := w\<rparr>))
         else if ptype packetCopy = DataPacket then
           (let (s, w) = outgoingUnreliableSequenceIDCounter_Next co (internals connection)
            in (packetCopy\<lparr>sequenceID := s\<rparr>, connection\<lparr>internals := w\<rparr>))
         else if ptype packetCopy = PingPacket then
           (let (s, w) = outgoingPingSequenceIDCounter_Next co (internals connection)
            in (packetCopy\<lparr>sequenceID := s\<rparr>, connection\<lparr>internals := w, lastSentPingTime := now\<rparr>))
         else (packetCopy\<lparr>sequenceID := 0\<rparr>, connection))
      else (packetCopy, connection))"

text \<open>
  Then the payload of a DATA packet that is not an acknowledgement: compressed and
  encrypted with the algorithms of the substream's stream settings when the packet is
  reliable (an error of either is logged and its output used all the same), the
  unreliable crypto transform otherwise, unless the version is 2.
\<close>

definition sendPacket_payload :: "'w collaborators \<Rightarrow> PRUDPPacket \<Rightarrow> 'w PRUDPConnection \<Rightarrow> PRUDPPacket \<times> 'w PRUDPConnection \<times> string list" where
  "sendPacket_payload co packetCopy connection =
     (if ptype packetCopy = DataPacket \<and> \<not> HasFlag packetCopy PacketFlagAck
           \<and> \<not> HasFlag packetCopy PacketFlagMultiAck then
        (if HasFlag packetCopy PacketFlagReliable then
           (let ((compressedPayload, err1), w1) =
                  Compress co (substreamID packetCopy) (internals connection) (payload packetCopy);
                ((encryptedPayload, err2), w2) =
                  Encrypt co (substreamID packetCopy) w1 compressedPayload
            in (packetCopy\<lparr>payload := encryptedPayload\<rparr>, connection\<lparr>internals := w2\<rparr>,
                (case err1 of None \<Rightarrow> [] | Some e \<Rightarrow> [e]) @ (case err2 of None \<Rightarrow> [] | Some e \<Rightarrow> [e])))
         else if Version packetCopy \<noteq> 2 then
           (packetCopy\<lparr>payload := processUnreliableCrypto co (internals connection) packetCopy\<rparr>,
            connection, [])
         else (packetCopy, connection, []))
      else (packetCopy, connection, []))"

text \<open>
  \<^verbatim>\<open>func (ps *PRUDPServer) sendPacket(packet PRUDPPacketInterface)\<close>, for a packet whose
  sender is the PRUDP connection \<open>connection\<close>. \<open>now1\<close> and \<open>now2\<close> are the two
  readings of the clock. The result is the connection after the call, the copy of the
  packet as it is encoded for the wire, what \<open>sendRaw\<close> transmits and the errors logged.
\<close>

definition sendPacket :: "'w collaborators \<Rightarrow> PRUDPServer \<Rightarrow> nat \<Rightarrow> nat \<Rightarrow> PRUDPPacket \<Rightarrow> 'w PRUDPConnection \<Rightarrow> 'w PRUDPConnection \<times> PRUDPPacket \<times> transmission option \<times> string list" where
  "sendPacket co ps now1 now2 packet connection =
     (let packetCopy = packet;
          (packetCopy, connection) = sendPacket_sequence co now1 packetCopy connection;
          packetCopy = packetCopy\<lparr>sessionID := ServerSessionID connection\<rparr>;
          (packetCopy, connection, logged) = sendPacket_payload co packetCopy connection;
          packetCopy =
            (if LegacyConnectionSignature (PRUDPV1Settings ps)
             then packetCopy\<lparr>signature :=
                    calculateSignature co packetCopy (SessionKey connection) (Signature connection)\<rparr>
             else packetCopy\<lparr>signature :=
                    calculateSignature co packetCopy (SessionKey connection) (ServerConnectionSignature connection)\<rparr>);
          packetCopy = packetCopy\<lparr>sendCount := sendCount packetCopy + 1\<rparr>;
          packetCopy = packetCopy\<lparr>sentAt := now2\<rparr>;
          connection =
            (if HasFlag packetCopy PacketFlagReliable \<and> HasFlag packetCopy PacketFlagNeedsAck
             then connection\<lparr>internals :=
                    SchedulePacketTimeout co (substreamID packetCopy) packetCopy (internals connection)\<rparr>
             else connection)
      in (connection, packetCopy, sendRaw ps (Socket connection) (Bytes co packetCopy), logged))"

subsection \<open>Concrete inputs\<close>

text \<open>
  Inputs on which the theorems below are instantiated: the default V1 settings, a
  reliable DATA packet between two ports of stream type 10 addressed to stream id 1, and
  an instance of the code outside the sources: stream type 11 as \<open>StreamTypeRelay\<close>,
  decoders that find no packet, an endpoint that records each packet delivered to it, a
  compression that leaves the payload as it is, an encryption that flips every bit, an
  unreliable transform that XORs every byte with \<open>0xAA\<close>, counters that answer 1. \<open>example_server\<close> is a new server with one
  endpoint bound to stream id 1.
\<close>

definition example_settings :: PRUDPV1Settings where
  "example_settings = \<lparr>LegacyConnectionSignature = False\<rparr>"

definition example_packet :: PRUDPPacket where
  "example_packet =
     \<lparr>dialect = V1, ptype = DataPacket, flags = {PacketFlagReliable, PacketFlagNeedsAck},
      SourceVirtualPortStreamType = 10, SourceVirtualPortStreamID = 15,
      DestinationVirtualPortStreamType = 10, DestinationVirtualPortStreamID = 1,
      sessionID = 0, substreamID = 0, sequenceID = 0, fragmentID = 0,
      payload = [], signature = [], sendCount = 0, sentAt = 0\<rparr>"

definition example_collaborators :: "(byte \<times> PRUDPPacket) list collaborators" where
  "example_collaborators =
     \<lparr>StreamTypeRelay = 11,
      NewPRUDPPacketsLite = (\<lambda>ps stream. []),
      NewPRUDPPacketsV1 = (\<lambda>ps stream. []),
      NewPRUDPPacketsV0 = (\<lambda>ps stream. []),
      NewSocketConnection = (\<lambda>ps address ws. \<lparr>Address = address, WebSocketConnection = ws\<rparr>),
      endpoint_processPacket = (\<lambda>endpoint packet socket w. w @ [(StreamID endpoint, packet)]),
      NextOutgoingSequenceID = (\<lambda>substream w. (1, w)),
      outgoingUnreliableSequenceIDCounter_Next = (\<lambda>w. (1, w)),
      outgoingPingSequenceIDCounter_Next = (\<lambda>w. (1, w)),
      Compress = (\<lambda>substream w data. ((data, None), w)),
      Encrypt = (\<lambda>substream w data. ((map (\<lambda>b. b XOR 0xFF) data, None), w)),
      processUnreliableCrypto = (\<lambda>w packet. map (\<lambda>b. b XOR 0xAA) (payload packet)),
      calculateSignature = (\<lambda>packet key sig. []),
      SchedulePacketTimeout = (\<lambda>substream packet w. w),
      Bytes = payload\<rparr>"

definition example_connection :: "(byte \<times> PRUDPPacket) list PRUDPConnection" where
  "example_connection =
     \<lparr>ServerSessionID = 7, SessionKey = [], Signature = [], ServerConnectionSignature = [],
      lastSentPingTime = 0,
      Socket = \<lparr>Address = OtherAddr ''ws-client'', WebSocketConnection = Some 1\<rparr>,
      internals = []\<rparr>"

definition example_server :: PRUDPServer where
  "example_server =
     fst (BindPRUDPEndPoint (NewPRUDPServer 0 example_settings) \<lparr>StreamID = 1, Server = None\<rparr>)"

chapter \<open>Verified properties\<close>

section \<open>DateTime: packing and unpacking\<close>

lemma go_int_range:
  fixes x :: "64 word"
  assumes "0 \<le> sint x" and "sint x < 2 ^ n" and "n < 64"
  shows "x < 2 ^ n"
proof -
  have "(2::int) ^ n < 2 ^ 64"
    using assms(3) by (intro power_strict_increasing) simp_all
  with assms(2) have "sint x < 2 ^ 64" by linarith
  with assms(1) have u: "uint x = sint x"
    using uint_sint [of x] by (simp add: take_bit_int_eq_self)
  have "n < size x"
    using assms(3) by (simp add: word_size)
  then show ?thesis
    using assms(2) by (simp add: word_2p_lem u)
qed

lemma high_bits_clear: "(x::64 word) < 2 ^ n \<Longrightarrow> n \<le> m \<Longrightarrow> \<not> bit x m"
  by (metis bit_take_bit_iff less_mask_eq not_le take_bit_eq_mask)

lemma set_bit_is_low: "(x::64 word) < 2 ^ n \<Longrightarrow> bit x m \<Longrightarrow> m < n"
  by (rule ccontr) (use high_bits_clear in \<open>auto simp: not_less\<close>)

lemma and_63_take_bit: "(x::64 word) AND 63 = take_bit 6 x"
  by (simp add: take_bit_eq_mask mask_eq_exp_minus_1)

lemma and_31_take_bit: "(x::64 word) AND 31 = take_bit 5 x"
  by (simp add: take_bit_eq_mask mask_eq_exp_minus_1)

lemma and_15_take_bit: "(x::64 word) AND 15 = take_bit 4 x"
  by (simp add: take_bit_eq_mask mask_eq_exp_minus_1)

lemma Second_Make:
  assumes "second < 2 ^ 6"
  shows "Second (Make dt year month day hour minute second) = second"
  using high_bits_clear [OF assms]
  apply (simp add: Second_def Make_def and_63_take_bit)
  apply (rule bit_word_eqI)
  apply (auto simp: bit_simps)
  done

lemma Minute_Make:
  assumes "second < 2 ^ 6" and "minute < 2 ^ 6"
  shows "Minute (Make dt year month day hour minute second) = minute"
  using high_bits_clear [OF assms(1)] high_bits_clear [OF assms(2)]
  apply (simp add: Minute_def Make_def and_63_take_bit)
  apply (rule bit_word_eqI)
  apply (auto simp: bit_simps)
  done

lemma Hour_Make:
  assumes "second < 2 ^ 6" and "minute < 2 ^ 6" and "hour < 2 ^ 5"
  shows "Hour (Make dt year month day hour minute second) = hour"
  using high_bits_clear [OF assms(1)] high_bits_clear [OF assms(2)] high_bits_clear [OF assms(3)]
  apply (simp add: Hour_def Make_def and_31_take_bit)
  apply (rule bit_word_eqI)
  apply (auto simp: bit_simps)
  done

lemma Day_Make:
  assumes "second < 2 ^ 6" and "minute < 2 ^ 6" and "hour < 2 ^ 5" and "day < 2 ^ 5"
  shows "Day (Make dt year month day hour minute second) = day"
  using high_bits_clear [OF assms(1)] high_bits_clear [OF assms(2)] high_bits_clear [OF assms(3)]
    high_bits_clear [OF assms(4)]
  apply (simp add: Day_def Make_def and_31_take_bit)
  apply (rule bit_word_eqI)
  apply (auto simp: bit_simps)
  done

lemma Month_Make:
  assumes "second < 2 ^ 6" and "minute < 2 ^ 6" and "hour < 2 ^ 5" and "day < 2 ^ 5"
    and "month < 2 ^ 4"
  shows "Month (Make dt year month day hour minute second) = month"
  using high_bits_clear [OF assms(1)] high_bits_clear [OF assms(2)] high_bits_clear [OF assms(3)]
    high_bits_clear [OF assms(4)] high_bits_clear [OF assms(5)]
  apply (simp add: Month_def Make_def and_15_take_bit)
  apply (rule bit_word_eqI)
  apply (auto simp: bit_simps)
  done

lemma Year_Make:
  assumes "second < 2 ^ 6" and "minute < 2 ^ 6" and "hour < 2 ^ 5" and "day < 2 ^ 5"
    and "month < 2 ^ 4" and "year < 2 ^ 37"
  shows "Year (Make dt year month day hour minute second) = year"
  using high_bits_clear [OF assms(1)] high_bits_clear [OF assms(2)] high_bits_clear [OF assms(3)]
    high_bits_clear [OF assms(4)] high_bits_clear [OF assms(5)]
  apply (simp add: Year_def Make_def)
  apply (rule bit_word_eqI)
  apply (auto simp: bit_simps dest: set_bit_is_low [OF assms(6)])
  done

text \<open>
  Claim C10. \<open>DateTime.Make\<close> round-trips with the field accessors: for non-negative Go
  \<open>int\<close>s with second below 64, minute below 64, hour below 32, day below 32, month
  below 16 and a year whose shift left by 26 bits stays below \<open>2^63\<close> (no overflow of a
  signed 64-bit integer), the accessors \<open>Second\<close>, \<open>Minute\<close>, \<open>Hour\<close>, \<open>Day\<close>,
  \<open>Month\<close> and \<open>Year\<close> of the made value return exactly the inputs.
\<close>

theorem DateTime_Make_roundtrip:
  assumes "0 \<le> sint second" and "sint second < 64"
    and "0 \<le> sint minute" and "sint minute < 64"
    and "0 \<le> sint hour" and "sint hour < 32"
    and "0 \<le> sint day" and "sint day < 32"
    and "0 \<le> sint month" and "sint month < 16"
    and "0 \<le> sint year" and "sint year * 2 ^ 26 < 2 ^ 63"
  shows "Second (Make dt year month day hour minute second) = second
       \<and> Minute (Make dt year month day hour minute second) = minute
       \<and> Hour (Make dt year month day hour minute second) = hour
       \<and> Day (Make dt year month day hour minute second) = day
       \<and> Month (Make dt year month day hour minute second) = month
       \<and> Year (Make dt year month day hour minute second) = year"
proof -
  have s: "second < 2 ^ 6"
    using assms(1,2) by (intro go_int_range) simp_all
  have mi: "minute < 2 ^ 6"
    using assms(3,4) by (intro go_int_range) simp_all
  have h: "hour < 2 ^ 5"
    using assms(5,6) by (intro go_int_range) simp_all
  have d: "day < 2 ^ 5"
    using assms(7,8) by (intro go_int_range) simp_all
  have mo: "month < 2 ^ 4"
    using assms(9,10) by (intro go_int_range) simp_all
  have "sint year < 2 ^ 37"
    using assms(12) by simp
  with assms(11) have y: "year < 2 ^ 37"
    by (intro go_int_range) simp_all
  show ?thesis
    using Second_Make [OF s] Minute_Make [OF s mi] Hour_Make [OF s mi h]
      Day_Make [OF s mi h d] Month_Make [OF s mi h d mo] Year_Make [OF s mi h d mo y]
    by simp
qed

theorem DateTime_Make_roundtrip_witness:
  "0 \<le> sint (59 :: go_int) \<and> sint (59 :: go_int) < 64
   \<and> 0 \<le> sint (45 :: go_int) \<and> sint (45 :: go_int) < 64
   \<and> 0 \<le> sint (13 :: go_int) \<and> sint (13 :: go_int) < 32
   \<and> 0 \<le> sint (17 :: go_int) \<and> sint (17 :: go_int) < 32
   \<and> 0 \<le> sint (5 :: go_int) \<and> sint (5 :: go_int) < 16
   \<and> 0 \<le> sint (2024 :: go_int) \<and> sint (2024 :: go_int) * 2 ^ 26 < 2 ^ 63
   \<and> Second (Make (NewDateTime 0) 2024 5 17 13 45 59) = 59
   \<and> Minute (Make (NewDateTime 0) 2024 5 17 13 45 59) = 45
   \<and> Hour (Make (NewDateTime 0) 2024 5 17 13 45 59) = 13
   \<and> Day (Make (NewDateTime 0) 2024 5 17 13 45 59) = 17
   \<and> Month (Make (NewDateTime 0) 2024 5 17 13 45 59) = 5
   \<and> Year (Make (NewDateTime 0) 2024 5 17 13 45 59) = 2024"
  using DateTime_Make_roundtrip [of 59 45 13 17 5 2024 "NewDateTime 0"]
  by simp

section \<open>Byte streams: reads are checked against what remains\<close>

lemma sint_small:
  fixes n :: "64 word"
  assumes "uint n < 2 ^ 63"
  shows "sint n = uint n"
proof -
  have "- (2 ^ 63) \<le> uint n"
    by (rule order_trans [OF _ uint_nonnegative]) simp
  with assms have "signed_take_bit 63 (uint n) = uint n"
    by (intro signed_take_bit_int_eq_self)
  then show ?thesis
    by (simp add: sint_uint)
qed

lemma uint_ucast_32_64: "uint (ucast (x :: 32 word) :: 64 word) = uint x"
  by (simp add: uint_up_ucast is_up)

lemma uint_32_small: "uint (x :: 32 word) < 2 ^ 63"
proof -
  have "uint x < 2 ^ 32" using uint_bounded [of x] by simp
  also have "(2::int) ^ 32 < 2 ^ 63" by simp
  finally show ?thesis .
qed

lemma unat_ucast_32_64: "unat (ucast (x :: 32 word) :: 64 word) = unat x"
  by (simp only: unat_eq_nat_uint uint_ucast_32_64)

lemma Remaining_Inr:
  "Remaining bsi = Inr r \<longleftrightarrow> boff bsi \<le> length (buf bsi) \<and> r = length (buf bsi) - boff bsi"
  by (auto simp: Remaining_def)

lemma Read_short:
  assumes "Remaining bsi = Inr r" and "r < unat n"
  shows "Read bsi n = Inr (bsi, [], Some ''Read is OOB'')"
  using assms by (simp add: Read_def)

lemma Read_enough:
  assumes rem: "Remaining bsi = Inr r" and small: "int (length (buf bsi)) < 2 ^ 63"
    and enough: "unat n \<le> r"
  shows "Read bsi n = Inr (bsi\<lparr>boff := boff bsi + unat n\<rparr>, take (unat n) (drop (boff bsi) (buf bsi)), None)"
proof -
  from rem have off: "boff bsi \<le> length (buf bsi)" and r: "r = length (buf bsi) - boff bsi"
    by (simp_all add: Remaining_Inr)
  from enough r have "unat n \<le> length (buf bsi)" by linarith
  then have "int (unat n) \<le> int (length (buf bsi))" by (simp only: of_nat_le_iff)
  then have "uint n \<le> int (length (buf bsi))" by (simp only: uint_nat)
  with small have "uint n < 2 ^ 63" by linarith
  then have "sint n = uint n" by (rule sint_small)
  then have s: "sint n = int (unat n)" by (simp only: uint_nat)
  have fits: "\<not> int (length (buf bsi)) < int (boff bsi) + int (unat n)"
    using enough r off by linarith
  show ?thesis
    using rem enough fits
    by (simp add: Read_def s ReadBytesNext_def ReadBytes_def not_less [symmetric])
qed

lemma ReadPrimitiveUInt32LE_short:
  assumes "Remaining bsi = Inr r" and "r < 4"
  shows "ReadPrimitiveUInt32LE bsi = Inr (bsi, 0, Some ''Not enough data to read uint32'')"
  using assms by (simp add: ReadPrimitiveUInt32LE_def)

lemma ReadPrimitiveUInt32LE_enough:
  assumes rem: "Remaining bsi = Inr r" and enough: "4 \<le> r"
  shows "ReadPrimitiveUInt32LE bsi =
           Inr (bsi\<lparr>boff := boff bsi + 4\<rparr>, le_uint32 (take 4 (drop (boff bsi) (buf bsi))), None)"
proof -
  from rem have off: "boff bsi \<le> length (buf bsi)" and r: "r = length (buf bsi) - boff bsi"
    by (simp_all add: Remaining_Inr)
  have fits: "\<not> int (length (buf bsi)) < int (boff bsi) + 4"
    using enough r off by linarith
  show ?thesis
    using rem enough fits
    by (simp add: ReadPrimitiveUInt32LE_def ReadU32LENext_def ReadBytesNext_def ReadBytes_def
        not_less [symmetric])
qed

lemma Remaining_after_4:
  assumes "Remaining bsi = Inr r" and "4 \<le> r"
  shows "Remaining (bsi\<lparr>boff := boff bsi + 4\<rparr>) = Inr (r - 4)"
  using assms by (simp add: Remaining_Inr)

lemma ExtractFrom_short_length:
  assumes "Remaining bsi = Inr r" and "r < 4"
  shows "ExtractFrom b bsi =
           Inr (b, bsi, Some ''Failed to read NEX Buffer length. Not enough data to read uint32'')"
  using assms by (simp add: ExtractFrom_def ReadPrimitiveUInt32LE_short)

lemma ExtractFrom_short_data:
  assumes rem: "Remaining bsi = Inr r" and enough: "4 \<le> r"
    and over: "r - 4 < unat (le_uint32 (take 4 (drop (boff bsi) (buf bsi))))"
  shows "ExtractFrom b bsi =
           Inr (b, bsi\<lparr>boff := boff bsi + 4\<rparr>, Some ''Failed to read NEX Buffer data. Read is OOB'')"
proof -
  have "r - 4 < unat (ucast (le_uint32 (take 4 (drop (boff bsi) (buf bsi)))) :: 64 word)"
    using over by (simp only: unat_ucast_32_64)
  then show ?thesis
    using Read_short [OF Remaining_after_4 [OF rem enough]]
    by (simp add: ExtractFrom_def ReadPrimitiveUInt32LE_enough [OF rem enough])
qed

lemma ExtractFrom_enough:
  assumes rem: "Remaining bsi = Inr r" and small: "int (length (buf bsi)) < 2 ^ 63"
    and enough: "4 \<le> r"
    and fits: "unat (le_uint32 (take 4 (drop (boff bsi) (buf bsi)))) \<le> r - 4"
  shows "ExtractFrom b bsi =
           Inr (take (unat (le_uint32 (take 4 (drop (boff bsi) (buf bsi))))) (drop (boff bsi + 4) (buf bsi)),
                bsi\<lparr>boff := boff bsi + 4 + unat (le_uint32 (take 4 (drop (boff bsi) (buf bsi))))\<rparr>, None)"
proof -
  let ?len = "le_uint32 (take 4 (drop (boff bsi) (buf bsi)))"
  have u: "unat (ucast ?len :: 64 word) = unat ?len"
    by (rule unat_ucast_32_64)
  have "Read (bsi\<lparr>boff := boff bsi + 4\<rparr>) (ucast ?len) =
          Inr (bsi\<lparr>boff := boff bsi + 4 + unat ?len\<rparr>,
               take (unat ?len) (drop (boff bsi + 4) (buf bsi)), None)"
    using Read_enough [OF Remaining_after_4 [OF rem enough], of "ucast ?len"] small fits
    by (simp add: u)
  then show ?thesis
    by (simp add: ExtractFrom_def ReadPrimitiveUInt32LE_enough [OF rem enough])
qed

text \<open>
  Claim C6. Decoding a length-prefixed value checks the stated length against the bytes
  that remain and fails with an error instead of reading out of bounds. For a stream with
  \<open>r\<close> bytes left (of a buffer of a size a Go slice can have), \<open>Read\<close> of \<open>n\<close> bytes
  returns the error \<open>Read is OOB\<close> when \<open>n\<close> exceeds \<open>r\<close> and the next \<open>n\<close> bytes
  otherwise; \<open>Buffer.ExtractFrom\<close> fails on the length when fewer than 4 bytes remain,
  fails on the data when the \<open>uint32\<close> length it read exceeds the bytes after it, and
  otherwise returns exactly that many bytes. No case panics.
\<close>

theorem length_prefixed_decoding_is_checked:
  assumes "Remaining bsi = Inr r" and "int (length (buf bsi)) < 2 ^ 63"
  shows "Read bsi n =
           (if r < unat n then Inr (bsi, [], Some ''Read is OOB'')
            else Inr (bsi\<lparr>boff := boff bsi + unat n\<rparr>,
                      take (unat n) (drop (boff bsi) (buf bsi)), None))
       \<and> ExtractFrom b bsi =
           (if r < 4 then
              Inr (b, bsi, Some ''Failed to read NEX Buffer length. Not enough data to read uint32'')
            else if r - 4 < unat (le_uint32 (take 4 (drop (boff bsi) (buf bsi)))) then
              Inr (b, bsi\<lparr>boff := boff bsi + 4\<rparr>, Some ''Failed to read NEX Buffer data. Read is OOB'')
            else
              Inr (take (unat (le_uint32 (take 4 (drop (boff bsi) (buf bsi))))) (drop (boff bsi + 4) (buf bsi)),
                   bsi\<lparr>boff := boff bsi + 4 + unat (le_uint32 (take 4 (drop (boff bsi) (buf bsi))))\<rparr>,
                   None))"
proof (intro conjI)
  show "Read bsi n =
           (if r < unat n then Inr (bsi, [], Some ''Read is OOB'')
            else Inr (bsi\<lparr>boff := boff bsi + unat n\<rparr>,
                      take (unat n) (drop (boff bsi) (buf bsi)), None))"
    using Read_short [OF assms(1)] Read_enough [OF assms]
    by (cases "r < unat n") (simp_all add: not_less)
next
  let ?len = "unat (le_uint32 (take 4 (drop (boff bsi) (buf bsi))))"
  consider "r < 4" | "4 \<le> r" "r - 4 < ?len" | "4 \<le> r" "?len \<le> r - 4"
    by linarith
  then show "ExtractFrom b bsi =
           (if r < 4 then
              Inr (b, bsi, Some ''Failed to read NEX Buffer length. Not enough data to read uint32'')
            else if r - 4 < ?len then
              Inr (b, bsi\<lparr>boff := boff bsi + 4\<rparr>, Some ''Failed to read NEX Buffer data. Read is OOB'')
            else
              Inr (take ?len (drop (boff bsi + 4) (buf bsi)),
                   bsi\<lparr>boff := boff bsi + 4 + ?len\<rparr>, None))"
  proof cases
    case 1
    then show ?thesis
      by (simp add: ExtractFrom_short_length [OF assms(1)])
  next
    case 2
    then show ?thesis
      by (simp add: ExtractFrom_short_data [OF assms(1)])
  next
    case 3
    then show ?thesis
      by (simp add: ExtractFrom_enough [OF assms] not_less [symmetric])
  qed
qed

theorem length_prefixed_decoding_is_checked_witness:
  "Remaining (NewByteStreamIn [5, 0, 0, 0, 1, 2]) = Inr 6
   \<and> int (length (buf (NewByteStreamIn [5, 0, 0, 0, 1, 2]))) < 2 ^ 63
   \<and> Read (NewByteStreamIn [5, 0, 0, 0, 1, 2]) 9 =
       Inr (NewByteStreamIn [5, 0, 0, 0, 1, 2], [], Some ''Read is OOB'')
   \<and> ExtractFrom [] (NewByteStreamIn [5, 0, 0, 0, 1, 2]) =
       Inr ([], \<lparr>buf = [5, 0, 0, 0, 1, 2], boff = 4\<rparr>, Some ''Failed to read NEX Buffer data. Read is OOB'')"
proof -
  have rem: "Remaining (NewByteStreamIn [5, 0, 0, 0, 1, 2]) = Inr 6"
    by (simp add: Remaining_def NewByteStreamIn_def)
  have small: "int (length (buf (NewByteStreamIn [5, 0, 0, 0, 1, 2]))) < 2 ^ 63"
    by (simp add: NewByteStreamIn_def)
  have len: "le_uint32 [5, 0, 0, 0] = 5"
    by (simp add: le_uint32_def)
  show ?thesis
    using length_prefixed_decoding_is_checked [OF rem small, of 9 "[]"] rem small
    by (simp add: NewByteStreamIn_def len)
qed

text \<open>
  Claim C9. \<open>ByteStreamIn.Read\<close> is atomic on failure: whenever the requested length
  exceeds the remaining byte count, \<open>Read\<close> returns an empty slice and an error, and the
  stream (its read position and its bytes) is exactly as before the call.
\<close>

theorem Read_failure_consumes_nothing:
  assumes "Remaining bsi = Inr r" and "r < unat n"
  shows "Read bsi n = Inr (bsi, [], Some ''Read is OOB'')"
  using assms by (rule Read_short)

theorem Read_failure_consumes_nothing_witness:
  "Remaining \<lparr>buf = [1, 2, 3], boff = 1\<rparr> = Inr 2
   \<and> 2 < unat (3 :: 64 word)
   \<and> Read \<lparr>buf = [1, 2, 3], boff = 1\<rparr> 3 = Inr (\<lparr>buf = [1, 2, 3], boff = 1\<rparr>, [], Some ''Read is OOB'')"
proof -
  have rem: "Remaining \<lparr>buf = [1, 2, 3], boff = 1\<rparr> = Inr 2"
    by (simp add: Remaining_def)
  have over: "2 < unat (3 :: 64 word)"
    by simp
  show ?thesis
    using Read_failure_consumes_nothing [OF rem over] rem over by simp
qed

section \<open>Construction and binding\<close>

text \<open>
  Claim C8. A freshly constructed server has fragment size 1300 bytes and session-key
  length 32 bytes.
\<close>

theorem NewPRUDPServer_defaults:
  "sint (FragmentSize (NewPRUDPServer addr v1)) = 1300
   \<and> sint (SessionKeyLength (NewPRUDPServer addr v1)) = 32"
  by (simp add: NewPRUDPServer_def)

text \<open>
  Claim C7. Binding an endpoint whose stream id is already in the \<open>Endpoints\<close> map is a
  no-op that does not fail: the call returns normally with the server, its \<open>Endpoints\<close>
  map included, and the endpoint exactly as they were (the endpoint bound before stays,
  the new one is not installed), and one warning naming the stream id is logged.
\<close>

theorem BindPRUDPEndPoint_rebind_is_noop:
  assumes "MutexMap_Has (Endpoints ps) (StreamID endpoint)"
  shows "BindPRUDPEndPoint ps endpoint = (ps, endpoint, [StreamID endpoint])
       \<and> Endpoints (fst (BindPRUDPEndPoint ps endpoint)) = Endpoints ps"
  using assms by (simp add: BindPRUDPEndPoint_def)

theorem BindPRUDPEndPoint_rebind_is_noop_witness:
  "MutexMap_Has
     (Endpoints (fst (BindPRUDPEndPoint (NewPRUDPServer 0 example_settings) \<lparr>StreamID = 1, Server = None\<rparr>)))
     (StreamID \<lparr>StreamID = 1, Server = Some 9\<rparr>)
   \<and> Endpoints (fst (BindPRUDPEndPoint
         (fst (BindPRUDPEndPoint (NewPRUDPServer 0 example_settings) \<lparr>StreamID = 1, Server = None\<rparr>))
         \<lparr>StreamID = 1, Server = Some 9\<rparr>)) 1
       = Some \<lparr>StreamID = 1, Server = Some 0\<rparr>"
proof -
  let ?ps = "fst (BindPRUDPEndPoint (NewPRUDPServer 0 example_settings) \<lparr>StreamID = 1, Server = None\<rparr>)"
  have bound: "Endpoints ?ps 1 = Some \<lparr>StreamID = 1, Server = Some 0\<rparr>"
    by (simp add: BindPRUDPEndPoint_def NewPRUDPServer_def MutexMap_Has_def MutexMap_Set_def Let_def)
  have h: "MutexMap_Has (Endpoints ?ps) (StreamID \<lparr>StreamID = 1, Server = Some 9\<rparr>)"
    by (simp add: MutexMap_Has_def bound)
  show ?thesis
    using BindPRUDPEndPoint_rebind_is_noop [OF h] h bound by simp
qed

section \<open>Receiving\<close>

text \<open>
  Claim C2 fails on the code. A UDP datagram of one byte reaches
  \<open>handleSocketMessage\<close> as a slice of length and capacity 1, and the slice expression
  \<open>packetData[:2]\<close> panics; so does an empty datagram, and with a WebSocket server
  configured an empty message panics at \<open>packetData[0]\<close>.
\<close>

theorem handleSocketMessage_panics_on_short_datagram:
  "listenAndServeUDP_datagram co (NewPRUDPServer addr v1) [0x80] address w = Inl SliceBoundsOutOfRange
   \<and> listenAndServeUDP_datagram co (NewPRUDPServer addr v1) [] address w = Inl SliceBoundsOutOfRange
   \<and> handleSocketMessage co ((NewPRUDPServer addr v1)\<lparr>websocketServer := Some h\<rparr>) (make_copy [])
        address c w = Inl IndexOutOfRange"
  by (simp add: listenAndServeUDP_datagram_def handleSocketMessage_def NewPRUDPServer_def
      make_copy_def slice_upto_def slice_index_def slice_bytes_def)

lemma processPacket_rejects:
  assumes "\<not> MutexMap_Has (Endpoints ps) (DestinationVirtualPortStreamID packet)
         \<or> DestinationVirtualPortStreamType packet \<noteq> SourceVirtualPortStreamType packet
         \<or> StreamTypeRelay co < DestinationVirtualPortStreamType packet
         \<or> StreamTypeRelay co < SourceVirtualPortStreamType packet
         \<or> (if dialect packet = Lite then 31 < SourceVirtualPortStreamID packet
             else 15 < SourceVirtualPortStreamID packet)"
  shows "\<exists>err. processPacket co ps packet address webSocketConnection w = (w, Some err)"
proof (cases "MutexMap_Get (Endpoints ps) (DestinationVirtualPortStreamID packet)")
  case None
  then show ?thesis
    by (simp add: processPacket_def)
next
  case (Some endpoint)
  have "15 < SourceVirtualPortStreamID packet" if "31 < SourceVirtualPortStreamID packet"
    using that by (rule order_less_trans [rotated]) simp
  with assms Some show ?thesis
    by (auto simp: processPacket_def MutexMap_Has_def MutexMap_Get_def Let_def split: if_splits)
qed

text \<open>
  Claim C5. Whenever a validation of \<open>processPacket\<close> fails (the destination stream id
  is unbound, the destination and source stream types differ, either stream type exceeds
  \<open>StreamTypeRelay\<close>, or the source port number exceeds 31 on a lite packet or 15 on any
  other), the call returns an error and the state is the one it was given: the socket
  connection is not built and \<open>PRUDPEndPoint.processPacket\<close>, the only place where a
  connection is created or a payload delivered, is not reached.
\<close>

theorem processPacket_validation_failure_changes_nothing:
  assumes "\<not> MutexMap_Has (Endpoints ps) (DestinationVirtualPortStreamID packet)
         \<or> DestinationVirtualPortStreamType packet \<noteq> SourceVirtualPortStreamType packet
         \<or> StreamTypeRelay co < DestinationVirtualPortStreamType packet
         \<or> StreamTypeRelay co < SourceVirtualPortStreamType packet
         \<or> (if dialect packet = Lite then 31 < SourceVirtualPortStreamID packet
             else 15 < SourceVirtualPortStreamID packet)"
  shows "fst (processPacket co ps packet address webSocketConnection w) = w
       \<and> snd (processPacket co ps packet address webSocketConnection w) \<noteq> None"
  using processPacket_rejects [OF assms, of address webSocketConnection w] by auto

theorem processPacket_validation_failure_changes_nothing_witness:
  "\<not> MutexMap_Has (Endpoints (NewPRUDPServer 0 example_settings))
        (DestinationVirtualPortStreamID example_packet)
   \<and> fst (processPacket example_collaborators (NewPRUDPServer 0 example_settings) example_packet
         (UDPAddr ''10.0.0.2:5000'') None []) = []
   \<and> snd (processPacket example_collaborators (NewPRUDPServer 0 example_settings) example_packet
         (UDPAddr ''10.0.0.2:5000'') None []) \<noteq> None"
proof -
  have h: "\<not> MutexMap_Has (Endpoints (NewPRUDPServer 0 example_settings))
             (DestinationVirtualPortStreamID example_packet)"
    by (simp add: MutexMap_Has_def NewPRUDPServer_def)
  show ?thesis
    using processPacket_validation_failure_changes_nothing
      [of "NewPRUDPServer 0 example_settings" example_packet example_collaborators
          "UDPAddr ''10.0.0.2:5000''" None "[]"] h
    by simp
qed

lemma example_server_endpoint:
  "Endpoints example_server 1 = Some \<lparr>StreamID = 1, Server = Some 0\<rparr>"
  by (simp add: example_server_def BindPRUDPEndPoint_def NewPRUDPServer_def MutexMap_Has_def
      MutexMap_Set_def Let_def)

text \<open>
  Claim C3 as stated fails on the code: a lite packet with source port number 32 to a
  bound endpoint, with matching and valid stream types, is rejected as too large (32
  exceeds 31, the largest 5-bit number). The same packet with source port 15 is
  delivered, so the port number is what rejects it.
\<close>

theorem lite_source_port_32_counterexample:
  "processPacket example_collaborators example_server
      (example_packet\<lparr>dialect := Lite, SourceVirtualPortStreamID := 32\<rparr>)
      (OtherAddr ''ws-client'') (Some 1) []
     = ([], Some (InvalidSourcePortNumber ''ws-client'' 32))
   \<and> processPacket example_collaborators example_server
      (example_packet\<lparr>dialect := Lite, SourceVirtualPortStreamID := 15\<rparr>)
      (OtherAddr ''ws-client'') (Some 1) []
     = ([(1, example_packet\<lparr>dialect := Lite, SourceVirtualPortStreamID := 15\<rparr>)], None)"
  by (simp add: processPacket_def MutexMap_Has_def MutexMap_Get_def example_server_endpoint
      example_packet_def example_collaborators_def Addr_String_def Let_def)

text \<open>
  Claim C3, as amended. A packet with source port number 32 that passes the checks on the
  destination stream id and on the stream types is rejected with the error that its port
  number is too large, and the state is left as it was, whatever the dialect: on legacy
  v0 and v1 because 32 exceeds 15, on lite because 32 exceeds 31.
\<close>

theorem source_port_32_rejected_in_every_dialect:
  assumes "MutexMap_Has (Endpoints ps) (DestinationVirtualPortStreamID packet)"
    and "DestinationVirtualPortStreamType packet = SourceVirtualPortStreamType packet"
    and "DestinationVirtualPortStreamType packet \<le> StreamTypeRelay co"
    and "SourceVirtualPortStreamID packet = 32"
  shows "processPacket co ps packet address webSocketConnection w
           = (w, Some (InvalidSourcePortNumber (Addr_String address) 32))"
  using assms
  by (auto simp: processPacket_def MutexMap_Has_def MutexMap_Get_def Let_def not_less [symmetric])

theorem source_port_32_rejected_in_every_dialect_witness:
  "MutexMap_Has (Endpoints example_server)
     (DestinationVirtualPortStreamID (example_packet\<lparr>dialect := V0, SourceVirtualPortStreamID := 32\<rparr>))
   \<and> DestinationVirtualPortStreamType (example_packet\<lparr>dialect := V0, SourceVirtualPortStreamID := 32\<rparr>)
       = SourceVirtualPortStreamType (example_packet\<lparr>dialect := V0, SourceVirtualPortStreamID := 32\<rparr>)
   \<and> DestinationVirtualPortStreamType (example_packet\<lparr>dialect := V0, SourceVirtualPortStreamID := 32\<rparr>)
       \<le> StreamTypeRelay example_collaborators
   \<and> SourceVirtualPortStreamID (example_packet\<lparr>dialect := V0, SourceVirtualPortStreamID := 32\<rparr>) = 32
   \<and> processPacket example_collaborators example_server
        (example_packet\<lparr>dialect := V0, SourceVirtualPortStreamID := 32\<rparr>)
        (UDPAddr ''10.0.0.2:5000'') None []
       = ([], Some (InvalidSourcePortNumber ''10.0.0.2:5000'' 32))"
proof -
  let ?p = "example_packet\<lparr>dialect := V0, SourceVirtualPortStreamID := 32\<rparr>"
  have h1: "MutexMap_Has (Endpoints example_server) (DestinationVirtualPortStreamID ?p)"
    by (simp add: MutexMap_Has_def example_packet_def example_server_endpoint)
  have h2: "DestinationVirtualPortStreamType ?p = SourceVirtualPortStreamType ?p"
    by (simp add: example_packet_def)
  have h3: "DestinationVirtualPortStreamType ?p \<le> StreamTypeRelay example_collaborators"
    by (simp add: example_packet_def example_collaborators_def)
  have h4: "SourceVirtualPortStreamID ?p = 32"
    by simp
  show ?thesis
    using source_port_32_rejected_in_every_dialect [OF h1 h2 h3 h4, of "UDPAddr ''10.0.0.2:5000''" None "[]"]
      h1 h2 h3
    by (simp add: Addr_String_def)
qed

section \<open>Sending one packet\<close>

text \<open>
  The payload that leaves \<open>sendPacket\<close> for a reliable DATA packet that is not an
  acknowledgement: the encryption of the compression of the original payload, by the
  algorithms of the packet's substream. The dialect plays no part.
\<close>

lemma sendPacket_reliable_data_payload:
  assumes "ptype packet = DataPacket" and "HasFlag packet PacketFlagReliable"
    and "\<not> HasFlag packet PacketFlagAck" and "\<not> HasFlag packet PacketFlagMultiAck"
  shows "payload (fst (snd (sendPacket co ps now1 now2 packet connection)))
       = fst (fst (Encrypt co (substreamID packet)
           (snd (Compress co (substreamID packet)
                  (snd (NextOutgoingSequenceID co (substreamID packet) (internals connection)))
                  (payload packet)))
           (fst (fst (Compress co (substreamID packet)
                  (snd (NextOutgoingSequenceID co (substreamID packet) (internals connection)))
                  (payload packet))))))"
  using assms
  by (simp add: sendPacket_def sendPacket_sequence_def sendPacket_payload_def HasFlag_def
      Let_def split_beta)

text \<open>
  Claim C4 fails on the code. \<open>sendPacket\<close> asks for the version only on the unreliable
  path: a reliable DATA packet of the lite dialect goes through the compression and the
  encryption of its substream like any other, and its payload leaves encrypted (here
  every bit flipped), while the unreliable lite packet keeps its payload.
\<close>

theorem sendPacket_encrypts_reliable_lite_payload:
  "payload (fst (snd (sendPacket example_collaborators example_server 0 0
       (example_packet\<lparr>dialect := Lite, payload := [1, 2, 3]\<rparr>) example_connection)))
     = [0xFE, 0xFD, 0xFC]
   \<and> payload (fst (snd (sendPacket example_collaborators example_server 0 0
       (example_packet\<lparr>dialect := Lite, flags := {}, payload := [1, 2, 3]\<rparr>) example_connection)))
     = [1, 2, 3]"
  by (simp add: sendPacket_def sendPacket_sequence_def sendPacket_payload_def HasFlag_def
      Version_def example_packet_def example_collaborators_def example_connection_def Let_def)

section \<open>Fragmentation in Send\<close>

lemma Send_loop_done: "fragments < i \<Longrightarrow> Send_loop i fragments fs data fid packet = ([], None)"
  by (subst Send_loop.simps) simp

lemma Send_loop_closed:
  assumes fs: "0 < fs"
  shows "fragments - i = int m \<Longrightarrow> length data div nat fs = m \<Longrightarrow>
     Send_loop i fragments fs data fid packet =
       (map (\<lambda>j. packet\<lparr>payload := take (nat fs) (drop (j * nat fs) data), fragmentID := fid + of_nat j\<rparr>) [0..<m]
        @ [packet\<lparr>payload := drop (m * nat fs) data, fragmentID := 0\<rparr>], None)"
proof (induction m arbitrary: i data fid packet)
  case 0
  from fs 0 have "length data < nat fs"
    by (simp add: div_eq_0_iff)
  with fs have short: "int (length data) < fs"
    by linarith
  from 0 have "i \<le> fragments" and "fragments < i + 1" by simp_all
  then show ?case
    using short by (subst Send_loop.simps) (simp add: Send_loop_done)
next
  case (Suc m)
  from fs Suc.prems have long: "nat fs \<le> length data"
    by (metis div_less not_le nat.distinct(1))
  then have nshort: "\<not> int (length data) < fs" using fs by linarith
  have rest: "length (drop (nat fs) data) div nat fs = m"
    using Suc.prems(2) long fs by (simp add: le_div_geq)
  have idx: "fragments - (i + 1) = int m" and le: "i \<le> fragments"
    using Suc.prems(1) by simp_all
  show ?case
    using fs nshort le
    apply (subst Send_loop.simps)
    apply (simp add: Suc.IH [OF idx rest] map_upt_Suc del: upt_Suc)
    apply (simp add: add.commute add.left_commute ac_simps)
    done
qed

lemma go_div_pos: "0 < fs \<Longrightarrow> go_div (int a) fs = int (a div nat fs)"
  by (cases "a = 0") (simp_all add: go_div_def zdiv_int)

lemma concat_chunks:
  "concat (map (\<lambda>j. take f (drop (j * f) xs)) [0..<n]) = take (n * f) xs"
proof (induction n)
  case 0
  show ?case by simp
next
  case (Suc n)
  have "take (Suc n * f) xs = take (n * f + f) xs"
    by (simp add: add.commute)
  also have "\<dots> = take (n * f) xs @ take f (drop (n * f) xs)"
    by (rule take_add)
  finally show ?case
    using Suc.IH by simp
qed

lemma Send_closed:
  assumes fs: "0 < sint (FragmentSize ps)"
  shows "Send ps (PRUDPPacketInterface packet) =
       (map (\<lambda>j. packet\<lparr>payload := take (nat (sint (FragmentSize ps))) (drop (j * nat (sint (FragmentSize ps))) (payload packet)),
                         fragmentID := 1 + of_nat j\<rparr>)
            [0..<length (payload packet) div nat (sint (FragmentSize ps))]
        @ [packet\<lparr>payload := drop (length (payload packet) div nat (sint (FragmentSize ps)) * nat (sint (FragmentSize ps))) (payload packet),
                   fragmentID := 0\<rparr>], None)"
  using fs by (simp add: Send_def Let_def go_div_pos Send_loop_closed [OF fs])

lemma ids_nonzero:
  assumes "n < 256"
  shows "(0 :: byte) \<notin> (\<lambda>j. 1 + of_nat j) ` {0..<n}"
proof
  assume "(0 :: byte) \<in> (\<lambda>j. 1 + of_nat j) ` {0..<n}"
  then obtain j where j: "j < n" and z: "(1 + of_nat j :: byte) = 0" by auto
  have "(of_nat (Suc j) :: byte) \<noteq> 0"
    using j assms by (intro of_nat_neq_0) simp_all
  with z show False by simp
qed

lemma ids_upt: "map (\<lambda>j. 1 + of_nat j :: byte) [0..<n] = map of_nat [1..<Suc n]"
proof -
  have "map of_nat [1..<Suc n] = map (of_nat :: nat \<Rightarrow> byte) (map Suc [0..<n])"
    by (simp only: map_Suc_upt One_nat_def)
  then show ?thesis by (simp add: comp_def)
qed


lemma full_chunk_length:
  assumes "j < length xs div f"
  shows "length (take f (drop (j * f) xs)) = f"
proof -
  have "Suc j * f \<le> (length xs div f) * f"
    using assms by (intro mult_le_mono1) simp
  also have "\<dots> \<le> length xs"
    by simp
  finally show ?thesis by simp
qed

text \<open>
  Claim C1, as amended. With a positive fragment size \<open>fs\<close> and a payload of \<open>n\<close> bytes
  with \<open>n div fs < 256\<close>, \<open>Send\<close> hands \<open>n div fs + 1\<close> packets to \<open>sendPacket\<close> and
  does not panic: the first \<open>n div fs\<close> carry \<open>fs\<close> bytes each and the fragment ids
  1, 2, ..., \<open>n div fs\<close>, none of them 0; the last carries the remaining \<open>n mod fs\<close>
  bytes (none when \<open>fs\<close> divides \<open>n\<close>) and fragment id 0; the payloads, in order,
  concatenate to the original payload.
\<close>

theorem Send_fragments:
  assumes "0 < sint (FragmentSize ps)"
    and "length (payload packet) div nat (sint (FragmentSize ps)) < 256"
  shows "snd (Send ps (PRUDPPacketInterface packet)) = None
       \<and> length (fst (Send ps (PRUDPPacketInterface packet)))
           = length (payload packet) div nat (sint (FragmentSize ps)) + 1
       \<and> map fragmentID (fst (Send ps (PRUDPPacketInterface packet)))
           = map of_nat [1..<Suc (length (payload packet) div nat (sint (FragmentSize ps)))] @ [0]
       \<and> 0 \<notin> set (map fragmentID (butlast (fst (Send ps (PRUDPPacketInterface packet)))))
       \<and> list_all (\<lambda>p. length (payload p) = nat (sint (FragmentSize ps)))
            (butlast (fst (Send ps (PRUDPPacketInterface packet))))
       \<and> length (payload (last (fst (Send ps (PRUDPPacketInterface packet)))))
           = length (payload packet) mod nat (sint (FragmentSize ps))
       \<and> concat (map payload (fst (Send ps (PRUDPPacketInterface packet)))) = payload packet"
proof -
  let ?f = "nat (sint (FragmentSize ps))"
  let ?n = "length (payload packet) div ?f"
  let ?g = "\<lambda>j. packet\<lparr>payload := take ?f (drop (j * ?f) (payload packet)), fragmentID := 1 + of_nat j\<rparr>"
  let ?final = "packet\<lparr>payload := drop (?n * ?f) (payload packet), fragmentID := 0\<rparr>"
  have S: "Send ps (PRUDPPacketInterface packet) = (map ?g [0..<?n] @ [?final], None)"
    by (rule Send_closed [OF assms(1)])
  have 1: "snd (Send ps (PRUDPPacketInterface packet)) = None"
    by (simp add: S)
  have 2: "length (fst (Send ps (PRUDPPacketInterface packet))) = ?n + 1"
    by (simp add: S)
  have "map fragmentID (map ?g [0..<?n] @ [?final]) = map (\<lambda>j. 1 + of_nat j) [0..<?n] @ [0]"
    by (simp add: comp_def)
  then have 3: "map fragmentID (fst (Send ps (PRUDPPacketInterface packet))) = map of_nat [1..<Suc ?n] @ [0]"
    by (simp only: S fst_conv ids_upt)
  have b: "butlast (fst (Send ps (PRUDPPacketInterface packet))) = map ?g [0..<?n]"
    by (simp add: S)
  have ids: "set (map fragmentID (map ?g [0..<?n])) = (\<lambda>j. 1 + of_nat j) ` {0..<?n}"
    by (simp add: comp_def image_image)
  have 4: "0 \<notin> set (map fragmentID (butlast (fst (Send ps (PRUDPPacketInterface packet)))))"
    unfolding b ids by (rule ids_nonzero [OF assms(2)])
  have 5: "list_all (\<lambda>p. length (payload p) = ?f) (butlast (fst (Send ps (PRUDPPacketInterface packet))))"
    using full_chunk_length [of _ "payload packet" ?f]
    by (simp add: S list_all_iff del: length_take)
  have 6: "length (payload (last (fst (Send ps (PRUDPPacketInterface packet))))) = length (payload packet) mod ?f"
    by (simp add: S minus_div_mult_eq_mod)
  have "concat (map payload (map ?g [0..<?n])) = take (?n * ?f) (payload packet)"
    using concat_chunks [of ?f "payload packet" ?n] by (simp add: comp_def)
  then have 7: "concat (map payload (fst (Send ps (PRUDPPacketInterface packet)))) = payload packet"
    by (simp add: S)
  from 1 2 3 4 5 6 7 show ?thesis by blast
qed

theorem Send_fragments_witness:
  "0 < sint (FragmentSize (SetFragmentSize (NewPRUDPServer 0 example_settings) 2))
   \<and> length (payload (example_packet\<lparr>payload := [1, 2, 3, 4, 5]\<rparr>))
         div nat (sint (FragmentSize (SetFragmentSize (NewPRUDPServer 0 example_settings) 2))) < 256
   \<and> snd (Send (SetFragmentSize (NewPRUDPServer 0 example_settings) 2)
              (PRUDPPacketInterface (example_packet\<lparr>payload := [1, 2, 3, 4, 5]\<rparr>))) = None
   \<and> map fragmentID (fst (Send (SetFragmentSize (NewPRUDPServer 0 example_settings) 2)
              (PRUDPPacketInterface (example_packet\<lparr>payload := [1, 2, 3, 4, 5]\<rparr>)))) = [1, 2, 0]
   \<and> concat (map payload (fst (Send (SetFragmentSize (NewPRUDPServer 0 example_settings) 2)
              (PRUDPPacketInterface (example_packet\<lparr>payload := [1, 2, 3, 4, 5]\<rparr>))))) = [1, 2, 3, 4, 5]"
proof -
  let ?ps = "SetFragmentSize (NewPRUDPServer 0 example_settings) 2"
  let ?p = "example_packet\<lparr>payload := [1, 2, 3, 4, 5]\<rparr>"
  have fs: "sint (FragmentSize ?ps) = 2"
    by (simp add: SetFragmentSize_def NewPRUDPServer_def)
  have h1: "0 < sint (FragmentSize ?ps)"
    by (simp add: fs)
  have h2: "length (payload ?p) div nat (sint (FragmentSize ?ps)) < 256"
    by (simp add: fs)
  have n: "length (payload ?p) div nat (sint (FragmentSize ?ps)) = 2"
    by (simp add: fs)
  have u: "map of_nat [1..<Suc 2] @ [0] = [1, 2, 0 :: byte]"
    by (simp add: upt_rec)
  show ?thesis
    using Send_fragments [OF h1 h2] h1 h2 unfolding n u by simp
qed

text \<open>
  Claim C1 as stated fails on the code: 3,900 bytes at the default fragment size of 1300
  leave \<open>Send\<close>'s loop four times, with fragment ids 1, 2, 3 and then 0 on a final packet
  whose payload is empty.
\<close>

theorem Send_3900_bytes_counterexample:
  "map fragmentID (fst (Send (NewPRUDPServer 0 example_settings)
        (PRUDPPacketInterface (example_packet\<lparr>payload := replicate 3900 0\<rparr>)))) = [1, 2, 3, 0]
   \<and> map (\<lambda>p. length (payload p)) (fst (Send (NewPRUDPServer 0 example_settings)
        (PRUDPPacketInterface (example_packet\<lparr>payload := replicate 3900 0\<rparr>)))) = [1300, 1300, 1300, 0]
   \<and> map fragmentID (fst (Send (NewPRUDPServer 0 example_settings)
        (PRUDPPacketInterface (example_packet\<lparr>payload := replicate 3900 0\<rparr>)))) \<noteq> [1, 2, 0]"
proof -
  let ?ps = "NewPRUDPServer 0 example_settings"
  have fs: "sint (FragmentSize ?ps) = 1300"
    by (simp add: NewPRUDPServer_def)
  have h1: "0 < sint (FragmentSize ?ps)"
    by (simp add: fs)
  have u: "[0..<3] = [0, 1, 2]"
    by (simp add: upt_rec)
  show ?thesis
    by (simp add: Send_closed [OF h1] fs u)
qed

end
